theory Spec2Isabelle
  imports Complex_Main "HOL-Library.Word" "HOL-Library.Sublist"
begin

section \<open>JavaScript strings\<close>

text \<open>
  A JavaScript string is a sequence of UTF-16 code units. The literals of the source are
  all ASCII; \<open>lit\<close> embeds an ASCII literal.
\<close>

type_synonym code_unit = "16 word"
type_synonym jsstring = "code_unit list"

definition lit :: "string \<Rightarrow> jsstring" where
  "lit s = map of_char s"

text \<open>
  \<open>a || b\<close> on strings: the empty string is falsy. The left operand may also be
  \<open>undefined\<close> (an absent field, an index out of range), which is falsy too.
\<close>

definition or_else :: "jsstring option \<Rightarrow> jsstring \<Rightarrow> jsstring" where
  "or_else a b = (case a of None \<Rightarrow> b | Some s \<Rightarrow> if s = [] then b else s)"

text \<open>
  \<open>s.split(d)\<close> with a one-unit separator: the pieces between the occurrences of
  \<open>d\<close>; the empty string gives one empty piece.
\<close>

fun split_js :: "code_unit \<Rightarrow> jsstring \<Rightarrow> jsstring list" where
  "split_js d [] = [[]]"
| "split_js d (c # cs) =
     (if c = d then [] # split_js d cs
      else (case split_js d cs of
              [] \<Rightarrow> [[c]]
            | w # ws \<Rightarrow> (c # w) # ws))"

text \<open>\<open>xs[0]\<close>: \<open>undefined\<close> on the empty array.\<close>

fun index0 :: "'a list \<Rightarrow> 'a option" where
  "index0 [] = None"
| "index0 (x # xs) = Some x"

text \<open>
  \<open>s.trim()\<close> removes white space and line terminators (ECMAScript's WhiteSpace and
  LineTerminator productions, all of them single code units) from both ends.
\<close>

definition is_js_whitespace :: "code_unit \<Rightarrow> bool" where
  "is_js_whitespace u \<longleftrightarrow>
     u = 0x09 \<or> u = 0x0A \<or> u = 0x0B \<or> u = 0x0C \<or> u = 0x0D \<or> u = 0x20 \<or> u = 0xA0
     \<or> u = 0x1680 \<or> (0x2000 \<le> u \<and> u \<le> 0x200A) \<or> u = 0x2028 \<or> u = 0x2029
     \<or> u = 0x202F \<or> u = 0x205F \<or> u = 0x3000 \<or> u = 0xFEFF"

definition trim :: "jsstring \<Rightarrow> jsstring" where
  "trim s = rev (dropWhile is_js_whitespace (rev (dropWhile is_js_whitespace s)))"

text \<open>\<open>n.toString()\<close> for a non-negative integer: its decimal digits.\<close>

fun toString :: "nat \<Rightarrow> jsstring" where
  "toString n =
     (if n < 10 then [of_nat (48 + n)]
      else toString (n div 10) @ [of_nat (48 + n mod 10)])"

declare toString.simps [simp del]

section \<open>JSON values\<close>

text \<open>
  A value as \<open>JSON.parse\<close> returns it and \<open>JSON.stringify\<close> takes it; an object is the
  list of its members. \<open>undefined\<close> is not a JSON value: a JavaScript value that may be
  \<open>undefined\<close> is a \<open>json option\<close>.
\<close>

datatype json =
  JNull
| JBool bool
| JNumber rat
| JString jsstring
| JArray "json list"
| JObject "(jsstring \<times> json) list"

datatype error = TypeError

text \<open>
  The property read \<open>v.k\<close>, for the keys the handler reads (\<open>data\<close>, \<open>answer\<close>,
  \<open>citations\<close>, \<open>citation\<close>, \<open>source\<close>): it throws on \<open>undefined\<close> and \<open>null\<close>, finds
  the member of an object, and is \<open>undefined\<close> on a string, number, boolean or array,
  none of which has a property of these names.
\<close>

fun member :: "json option \<Rightarrow> jsstring \<Rightarrow> error + json option" where
  "member None k = Inl TypeError"
| "member (Some JNull) k = Inl TypeError"
| "member (Some (JObject ms)) k = Inr (map_of ms k)"
| "member (Some v) k = Inr None"

text \<open>
  \<open>a || b\<close> on values: \<open>undefined\<close>, \<open>null\<close>, \<open>false\<close>, zero and the empty string are
  falsy.
\<close>

fun falsy :: "json \<Rightarrow> bool" where
  "falsy JNull = True"
| "falsy (JBool b) = (b = False)"
| "falsy (JNumber n) = (n = 0)"
| "falsy (JString s) = (s = [])"
| "falsy (JArray xs) = False"
| "falsy (JObject ms) = False"

definition or_value :: "json option \<Rightarrow> json \<Rightarrow> json" where
  "or_value a b = (case a of None \<Rightarrow> b | Some v \<Rightarrow> if falsy v then b else v)"

section \<open>SearchPage: data\<close>

datatype role = User | Assistant

record Citation =
  id_c :: jsstring
  title :: jsstring
  court :: jsstring
  year :: jsstring
  url :: jsstring
  citation :: jsstring
  source :: jsstring

record Message =
  id_m :: jsstring
  role :: role
  content :: json
  citations :: "Citation list option"
  loading :: "bool option"

text \<open>The four \<open>useState\<close> cells of the component.\<close>

record state =
  messages :: "Message list"
  input :: jsstring
  isLoading :: bool
  expandedCitations :: "jsstring list"

definition initial_state :: state where
  "initial_state = \<lparr>messages = [], input = [], isLoading = False, expandedCitations = []\<rparr>"

section \<open>toggleCitations\<close>

definition toggle :: "jsstring \<Rightarrow> jsstring list \<Rightarrow> jsstring list" where
  "toggle messageId prev =
     (if messageId \<in> set prev then filter (\<lambda>i. i \<noteq> messageId) prev
      else prev @ [messageId])"

definition toggleCitations :: "jsstring \<Rightarrow> state \<Rightarrow> state" where
  "toggleCitations messageId st =
     st\<lparr>expandedCitations := toggle messageId (expandedCitations st)\<rparr>"

section \<open>handleSubmit\<close>

text \<open>
  What \<open>await fetch(...)\<close> and \<open>await response.json()\<close> can produce: the fetch
  rejects; or it resolves with a status flag \<open>ok\<close> and a body, which fails to parse or
  parses to some JSON value.
\<close>

datatype body = Unparseable | Parsed json

datatype fetch_outcome = Rejected | Replied bool body

text \<open>
  What the \<open>try\<close> block has in hand once none of its reads has thrown:
  \<open>data.data.answer\<close>, any value or \<open>undefined\<close>, and the elements of
  \<open>data.data.citations\<close>, each with the two strings of the callback's parameter type
  \<open>{ citation: string; source: string }\<close>; no list when \<open>?.\<close> met \<open>undefined\<close> or
  \<open>null\<close>.
\<close>

record backend_citation =
  bc_citation :: jsstring
  bc_source :: jsstring

record response_data =
  answer :: "json option"
  data_citations :: "backend_citation list option"

text \<open>
  The reads of the \<open>try\<close> block, each with the \<open>TypeError\<close> it can throw. The types of
  the source are erased at run time, so the parsed body is any JSON value.
  \<open>c.citation.split\<close> and \<open>c.source.split\<close> throw unless the member is a string (no
  other JSON value has a callable \<open>split\<close>); \<open>citations?.map\<close> yields \<open>undefined\<close> on
  \<open>undefined\<close> and \<open>null\<close>, runs the callback over an array, and throws on anything else
  (no other JSON value has a callable \<open>map\<close>). A throw discards what the block has built,
  so the model reads first and builds afterwards.
\<close>

definition read_string :: "json \<Rightarrow> jsstring \<Rightarrow> error + jsstring" where
  "read_string c k =
     (case member (Some c) k of
        Inl e \<Rightarrow> Inl e
      | Inr v \<Rightarrow> (case v of Some (JString s) \<Rightarrow> Inr s | _ \<Rightarrow> Inl TypeError))"

definition read_citation :: "json \<Rightarrow> error + backend_citation" where
  "read_citation c =
     (case read_string c (lit ''citation'') of
        Inl e \<Rightarrow> Inl e
      | Inr cit \<Rightarrow>
          (case read_string c (lit ''source'') of
             Inl e \<Rightarrow> Inl e
           | Inr src \<Rightarrow> Inr \<lparr>bc_citation = cit, bc_source = src\<rparr>))"

fun read_elements :: "json list \<Rightarrow> error + backend_citation list" where
  "read_elements [] = Inr []"
| "read_elements (c # cs) =
     (case read_citation c of
        Inl e \<Rightarrow> Inl e
      | Inr b \<Rightarrow> (case read_elements cs of Inl e \<Rightarrow> Inl e | Inr bs \<Rightarrow> Inr (b # bs)))"

fun read_citations :: "json option \<Rightarrow> error + backend_citation list option" where
  "read_citations None = Inr None"
| "read_citations (Some JNull) = Inr None"
| "read_citations (Some (JArray xs)) =
     (case read_elements xs of Inl e \<Rightarrow> Inl e | Inr bs \<Rightarrow> Inr (Some bs))"
| "read_citations (Some v) = Inl TypeError"

definition read_reply :: "json \<Rightarrow> error + response_data" where
  "read_reply data =
     (case member (Some data) (lit ''data'') of
        Inl e \<Rightarrow> Inl e
      | Inr d \<Rightarrow>
          (case member d (lit ''answer'') of
             Inl e \<Rightarrow> Inl e
           | Inr a \<Rightarrow>
               (case member d (lit ''citations'') of
                  Inl e \<Rightarrow> Inl e
                | Inr cs \<Rightarrow>
                    (case read_citations cs of
                       Inl e \<Rightarrow> Inl e
                     | Inr l \<Rightarrow> Inr \<lparr>answer = a, data_citations = l\<rparr>))))"

text \<open>The request: \<open>JSON.stringify\<close> is applied to an object literal with two members.\<close>

record request =
  req_url :: jsstring
  req_method :: jsstring
  req_headers :: "(jsstring \<times> jsstring) list"
  req_body :: json

definition query_request :: "jsstring \<Rightarrow> request" where
  "query_request inp =
     \<lparr>req_url = lit ''http://localhost:8000/query'',
      req_method = lit ''POST'',
      req_headers = [(lit ''Content-Type'', lit ''application/json'')],
      req_body = JObject [(lit ''query'', JString inp), (lit ''model_id'', JNull)]\<rparr>"

definition userMessage :: "nat \<Rightarrow> jsstring \<Rightarrow> Message" where
  "userMessage now inp =
     \<lparr>id_m = toString now, role = User, content = JString inp, citations = None,
      loading = None\<rparr>"

definition loadingMessage :: "nat \<Rightarrow> Message" where
  "loadingMessage now =
     \<lparr>id_m = toString (now + 1), role = Assistant, content = JString [], citations = None,
      loading = Some True\<rparr>"

definition no_information :: jsstring where
  "no_information =
     lit ''I couldn't find relevant information for your query. Please try rephrasing your question.''"

definition apology :: jsstring where
  "apology =
     lit ''I'm sorry, I couldn't process your request. Please check your connection and try again.''"

text \<open>
  The callback of \<open>citations?.map\<close>. \<open>now\<close> is the reading of \<open>Date.now()\<close> and
  \<open>rnd\<close> the nine characters cut from \<open>Math.random().toString(36)\<close> at this element.
\<close>

definition mapCitation :: "nat \<Rightarrow> jsstring \<Rightarrow> backend_citation \<Rightarrow> Citation" where
  "mapCitation now rnd c =
     \<lparr>id_c = toString now @ rnd,
      title = or_else (index0 (split_js 0x2E (bc_citation c))) (bc_citation c),
      court = or_else (index0 (split_js 0x2C (bc_source c))) (bc_source c),
      year = lit ''N/A'',
      url = lit ''#'',
      citation = bc_citation c,
      source = bc_source c\<rparr>"

text \<open>
  The clock and the random generator as the handler meets them after the reply:
  \<open>now_final\<close> is read for the message identifier, \<open>now_at i\<close> and \<open>random_at i\<close>
  inside the callback at element \<open>i\<close>.
\<close>

record environment =
  now_final :: nat
  now_at :: "nat \<Rightarrow> nat"
  random_at :: "nat \<Rightarrow> jsstring"

fun mapCitations :: "environment \<Rightarrow> nat \<Rightarrow> backend_citation list \<Rightarrow> Citation list" where
  "mapCitations env i [] = []"
| "mapCitations env i (c # cs) =
     mapCitation (now_at env i) (random_at env i) c # mapCitations env (Suc i) cs"

definition assistantMessage :: "environment \<Rightarrow> response_data \<Rightarrow> Message" where
  "assistantMessage env d =
     \<lparr>id_m = toString (now_final env + 2),
      role = Assistant,
      content = or_value (answer d) (JString no_information),
      citations = Some (case data_citations d of
                          None \<Rightarrow> []
                        | Some cs \<Rightarrow> mapCitations env 0 cs),
      loading = None\<rparr>"

definition errorMessage :: "environment \<Rightarrow> Message" where
  "errorMessage env =
     \<lparr>id_m = toString (now_final env + 2), role = Assistant, content = JString apology,
      citations = None, loading = None\<rparr>"

text \<open>
  The handler up to its first \<open>await\<close>: the guard, the two appended messages, the cleared
  input, the flag, and the request it issues (none when the guard returns).
\<close>

definition handleSubmit_begin :: "nat \<Rightarrow> nat \<Rightarrow> state \<Rightarrow> state \<times> request option" where
  "handleSubmit_begin now0 now1 st =
     (if trim (input st) = [] \<or> isLoading st then (st, None)
      else (st\<lparr>messages := messages st @ [userMessage now0 (input st), loadingMessage now1],
               input := [],
               isLoading := True\<rparr>,
            Some (query_request (input st))))"

text \<open>
  The \<open>disabled\<close> attribute of the submit button, in the centred form of the page and
  in FixedSearchBar alike.
\<close>

definition submit_disabled :: "jsstring \<Rightarrow> bool \<Rightarrow> bool" where
  "submit_disabled inp loading_now \<longleftrightarrow> trim inp = [] \<or> loading_now"

text \<open>The message built in the \<open>try\<close> block, or in the \<open>catch\<close> block when anything threw.\<close>

fun finalMessage :: "environment \<Rightarrow> fetch_outcome \<Rightarrow> Message" where
  "finalMessage env (Replied True (Parsed data)) =
     (case read_reply data of
        Inl e \<Rightarrow> errorMessage env
      | Inr d \<Rightarrow> assistantMessage env d)"
| "finalMessage env _ = errorMessage env"

text \<open>The handler after the reply: \<open>prev.slice(0, -1).concat([m])\<close>, then \<open>finally\<close>.\<close>

definition handleSubmit_complete :: "environment \<Rightarrow> fetch_outcome \<Rightarrow> state \<Rightarrow> state" where
  "handleSubmit_complete env oc st =
     st\<lparr>messages := butlast (messages st) @ [finalMessage env oc], isLoading := False\<rparr>"

section \<open>The component over time\<close>

text \<open>
  What can happen to a mounted component: the user types, toggles a citation block or
  submits the form (with the two clock readings of the handler), and the reply to the
  request in flight arrives. A request is in flight exactly while \<open>isLoading\<close> is set:
  the flag is set just before \<open>fetch\<close> and cleared by \<open>finally\<close>. Events are handled
  one at a time, each on the state the previous one left.
\<close>

datatype event =
  SetInput jsstring
| Toggle jsstring
| Submit nat nat
| Reply environment fetch_outcome

fun step :: "state \<Rightarrow> event \<Rightarrow> state" where
  "step st (SetInput v) = st\<lparr>input := v\<rparr>"
| "step st (Toggle i) = toggleCitations i st"
| "step st (Submit now0 now1) = fst (handleSubmit_begin now0 now1 st)"
| "step st (Reply env oc) = (if isLoading st then handleSubmit_complete env oc st else st)"

definition run :: "event list \<Rightarrow> state" where
  "run es = foldl step initial_state es"

definition is_reply :: "event \<Rightarrow> bool" where
  "is_reply e = (case e of Reply env oc \<Rightarrow> True | _ \<Rightarrow> False)"

definition is_loading :: "Message \<Rightarrow> bool" where
  "is_loading m \<longleftrightarrow> loading m = Some True"

section \<open>Rendering a message\<close>

text \<open>
  The JSX of one message: the spinner while \<open>loading\<close>; otherwise the content and, when
  there is at least one citation, a block with the count and, when expanded, the cards.
\<close>

record card =
  card_title :: jsstring
  card_court :: jsstring
  card_year :: jsstring
  card_href :: jsstring

record citations_block =
  block_count :: nat
  block_cards :: "card list option"

datatype view = Researching | Bubble role json "citations_block option"

definition render_card :: "Citation \<Rightarrow> card" where
  "render_card c = \<lparr>card_title = title c, card_court = court c, card_year = year c, card_href = url c\<rparr>"

definition render_message :: "jsstring list \<Rightarrow> Message \<Rightarrow> view" where
  "render_message expanded m =
     (if loading m = Some True then Researching
      else Bubble (role m) (content m)
             (case citations m of
                None \<Rightarrow> None
              | Some cs \<Rightarrow>
                  if length cs > 0
                  then Some \<lparr>block_count = length cs,
                             block_cards = (if id_m m \<in> set expanded
                                            then Some (map render_card cs) else None)\<rparr>
                  else None))"

text \<open>The chat column: \<open>messages.map\<close> over the JSX of one message.\<close>

definition render_page :: "state \<Rightarrow> view list" where
  "render_page st = map (render_message (expandedCitations st)) (messages st)"

section \<open>Configuration\<close>

record provider_spec =
  model_name :: string
  provider :: string
  priority :: int

definition generation_providers :: "provider_spec list" where
  "generation_providers =
     [\<lparr>model_name = ''llama-3.3-70b-versatile'', provider = ''groq'', priority = 1\<rparr>,
      \<lparr>model_name = ''deepseek-ai/DeepSeek-V3'', provider = ''together'', priority = 2\<rparr>,
      \<lparr>model_name = ''gpt-4o'', provider = ''openai'', priority = 3\<rparr>,
      \<lparr>model_name = ''claude-3-opus-20240229'', provider = ''anthropic'', priority = 4\<rparr>]"

section \<open>The backend, as far as the component depends on it\<close>

text \<open>
  Modelled from the spec: the provider chain of the backend, which is not among the
  sources. Providers are tried strictly in ascending priority order; an attempt either
  succeeds with a text or fails with a reason, and any failure moves on to the next
  provider; the chain stops at the first success; if every provider fails, the chain
  fails with the ordered list of the failure reasons. The first component of the result
  is the list of the providers attempted, in the order of the attempts.
\<close>

datatype 'e chain_result = AllProvidersExhausted "'e list" | Generated string provider_spec

fun try_providers ::
  "(provider_spec \<Rightarrow> 'e + string) \<Rightarrow> provider_spec list \<Rightarrow> provider_spec list \<times> 'e chain_result" where
  "try_providers attempt [] = ([], AllProvidersExhausted [])"
| "try_providers attempt (p # ps) =
     (case attempt p of
        Inr txt \<Rightarrow> ([p], Generated txt p)
      | Inl e \<Rightarrow>
          (case try_providers attempt ps of
             (tried, AllProvidersExhausted es) \<Rightarrow> (p # tried, AllProvidersExhausted (e # es))
           | (tried, Generated txt q) \<Rightarrow> (p # tried, Generated txt q)))"

definition generate ::
  "(provider_spec \<Rightarrow> 'e + string) \<Rightarrow> provider_spec list \<Rightarrow> provider_spec list \<times> 'e chain_result" where
  "generate attempt providers = try_providers attempt (sort_key priority providers)"

text \<open>
  Modelled from the spec: the reply of the backend pipeline, which is not among the
  sources, when the whole pipeline fails. It is a well-formed response object, not a
  transport-level error: the answer is a user-safe fallback message and the citation list
  is empty. The two fields are where the handler reads them, under \<open>data\<close>.
\<close>

definition pipeline_failure_reply :: "jsstring \<Rightarrow> fetch_outcome" where
  "pipeline_failure_reply fallback =
     Replied True
       (Parsed (JObject [(lit ''data'',
                  JObject [(lit ''answer'', JString fallback), (lit ''citations'', JArray [])])]))"

section \<open>The loading placeholder\<close>

text \<open>
  While a request is in flight the last message is the placeholder and no other message
  is loading; otherwise no message is loading.
\<close>

definition loading_inv :: "state \<Rightarrow> bool" where
  "loading_inv st \<longleftrightarrow>
     (if isLoading st
      then messages st \<noteq> [] \<and> is_loading (last (messages st))
           \<and> list_all (\<lambda>m. \<not> is_loading m) (butlast (messages st))
      else list_all (\<lambda>m. \<not> is_loading m) (messages st))"

section \<open>Properties of the string operations\<close>

lemma split_js_not_Nil: "split_js d s \<noteq> []"
  by (induction s) (auto split: list.splits)

lemma index0_split_js: "index0 (split_js d s) = Some (takeWhile (\<lambda>u. u \<noteq> d) s)"
  by (induction s) (auto split: list.splits)

lemma trim_Nil_iff: "trim s = [] \<longleftrightarrow> (\<forall>u \<in> set s. is_js_whitespace u)"
proof
  assume "trim s = []"
  then have all: "\<forall>u \<in> set (dropWhile is_js_whitespace s). is_js_whitespace u"
    by (simp add: trim_def)
  have "dropWhile is_js_whitespace s = []"
  proof (rule ccontr)
    assume ne: "dropWhile is_js_whitespace s \<noteq> []"
    then have "\<not> is_js_whitespace (hd (dropWhile is_js_whitespace s))"
      by (rule hd_dropWhile)
    moreover have "hd (dropWhile is_js_whitespace s) \<in> set (dropWhile is_js_whitespace s)"
      using ne by simp
    ultimately show False using all by blast
  qed
  then show "\<forall>u \<in> set s. is_js_whitespace u"
    by simp
next
  assume "\<forall>u \<in> set s. is_js_whitespace u"
  then show "trim s = []"
    by (auto simp: trim_def dest: set_dropWhileD)
qed

lemma trim_tort: "trim (lit ''tort'') \<noteq> []"
  by (simp add: trim_def lit_def is_js_whitespace_def)

section \<open>Properties of reading the reply\<close>

text \<open>
  Which replies the \<open>try\<close> block reads without a throw: the \<open>data\<close> member is there and
  not null, and the \<open>citations\<close> member is absent, null or an array of objects that each
  have a string \<open>citation\<close> and a string \<open>source\<close>.
\<close>

lemma error_unique: "(a :: error) = b"
  by (cases a, cases b) simp

lemma member_Inr_iff:
  "member v k = Inr r \<longleftrightarrow>
   (\<exists>w. v = Some w \<and> w \<noteq> JNull \<and> r = (case w of JObject ms \<Rightarrow> map_of ms k | _ \<Rightarrow> None))"
  by (cases "(v, k)" rule: member.cases) auto

lemma read_string_Inr_iff:
  "read_string c k = Inr s \<longleftrightarrow> (\<exists>ms. c = JObject ms \<and> map_of ms k = Some (JString s))"
  by (cases c) (auto simp: read_string_def split: option.splits json.splits)

lemma read_citation_Inr_iff:
  "read_citation c = Inr b \<longleftrightarrow>
   read_string c (lit ''citation'') = Inr (bc_citation b)
   \<and> read_string c (lit ''source'') = Inr (bc_source b)"
  by (cases b) (auto simp: read_citation_def split: sum.splits)

lemma read_elements_Inr_iff:
  "read_elements xs = Inr bs \<longleftrightarrow> list_all2 (\<lambda>x b. read_citation x = Inr b) xs bs"
proof (induction xs arbitrary: bs)
  case Nil
  show ?case by auto
next
  case (Cons x xs)
  show ?case
    by (cases bs) (auto simp: Cons.IH [symmetric] split: sum.splits)
qed

lemma read_citations_Inr_iff:
  "read_citations cs = Inr l \<longleftrightarrow>
   (cs = None \<or> cs = Some JNull) \<and> l = None
   \<or> (\<exists>xs bs. cs = Some (JArray xs) \<and> read_elements xs = Inr bs \<and> l = Some bs)"
  by (cases "cs" rule: read_citations.cases) (auto split: sum.splits)

lemma read_reply_Inr_iff:
  "read_reply data = Inr d \<longleftrightarrow>
   (\<exists>dv cs. member (Some data) (lit ''data'') = Inr dv
      \<and> member dv (lit ''answer'') = Inr (answer d)
      \<and> member dv (lit ''citations'') = Inr cs
      \<and> read_citations cs = Inr (data_citations d))"
  by (cases d) (auto simp: read_reply_def split: sum.splits)

lemma unreadable_reply:
  "read_reply data = Inl e \<Longrightarrow> finalMessage env (Replied True (Parsed data)) = errorMessage env"
  by simp

lemma readable_reply:
  "read_reply data = Inr d \<Longrightarrow>
   finalMessage env (Replied True (Parsed data)) = assistantMessage env d"
  by simp

lemma finalMessage_cases:
  "finalMessage env oc = errorMessage env
   \<or> (\<exists>data d. oc = Replied True (Parsed data) \<and> read_reply data = Inr d
        \<and> finalMessage env oc = assistantMessage env d)"
  by (cases "(env, oc)" rule: finalMessage.cases) (auto split: sum.splits)

lemma finalMessage_not_loading: "\<not> is_loading (finalMessage env oc)"
  using finalMessage_cases [of env oc]
  by (auto simp: is_loading_def assistantMessage_def errorMessage_def)

lemma finalMessage_role: "role (finalMessage env oc) = Assistant"
  using finalMessage_cases [of env oc]
  by (auto simp: assistantMessage_def errorMessage_def)

section \<open>Properties of the citation mapping\<close>

lemma mapCitations_shown:
  "map (\<lambda>c. (title c, court c, year c, url c, citation c, source c)) (mapCitations env i cs)
   = map (\<lambda>b. (or_else (index0 (split_js 0x2E (bc_citation b))) (bc_citation b),
                   or_else (index0 (split_js 0x2C (bc_source b))) (bc_source b),
                   lit ''N/A'', lit ''#'', bc_citation b, bc_source b)) cs"
  by (induction cs arbitrary: i) (simp_all add: mapCitation_def)

lemma length_mapCitations: "length (mapCitations env i cs) = length cs"
  by (induction cs arbitrary: i) simp_all

text \<open>
  C2. The title is the text of the citation string before its first full
  stop when that text is not empty, and the citation string itself otherwise, that is
  when the string is empty or begins with a full stop; the court is derived in the same
  way from the source string and its first comma. A field is empty only when its raw
  string is.
\<close>

theorem citation_title_and_court:
  "title (mapCitation now rnd c)
     = (if takeWhile (\<lambda>u. u \<noteq> 0x2E) (bc_citation c) = [] then bc_citation c
        else takeWhile (\<lambda>u. u \<noteq> 0x2E) (bc_citation c))
   \<and> court (mapCitation now rnd c)
     = (if takeWhile (\<lambda>u. u \<noteq> 0x2C) (bc_source c) = [] then bc_source c
        else takeWhile (\<lambda>u. u \<noteq> 0x2C) (bc_source c))
   \<and> (title (mapCitation now rnd c) = []) = (bc_citation c = [])
   \<and> (court (mapCitation now rnd c) = []) = (bc_source c = [])"
  by (auto simp: mapCitation_def index0_split_js or_else_def)

text \<open>
  C2 as stated fails on a citation string that begins with the delimiter: the text before
  the first full stop of \<open>.abc\<close> is empty, and the title is the whole string.
\<close>

theorem citation_title_counterexample:
  "index0 (split_js 0x2E (lit ''.abc'')) = Some []
   \<and> title (mapCitation 0 [] \<lparr>bc_citation = lit ''.abc'', bc_source = lit ''High Court, Nairobi''\<rparr>)
       = lit ''.abc''
   \<and> lit ''.abc'' \<noteq> []"
  by (simp add: mapCitation_def or_else_def lit_def)


text \<open>
  C7. The displayed citation sequence does not depend on the clock or on the random
  generator: under any two environments the final messages for one outcome agree on their
  content and, citation by citation and in the same order, on every field but the
  generated identifier; the order is that of the response's list.
\<close>

theorem citation_sequence_deterministic:
  "map_option (map (\<lambda>c. (title c, court c, year c, url c, citation c, source c)))
     (citations (finalMessage env1 oc))
   = map_option (map (\<lambda>c. (title c, court c, year c, url c, citation c, source c)))
     (citations (finalMessage env2 oc))
   \<and> content (finalMessage env1 oc) = content (finalMessage env2 oc)
   \<and> map citation (mapCitations env1 i cs) = map bc_citation cs
   \<and> map source (mapCitations env1 i cs) = map bc_source cs"
proof -
  have a: "map_option (map (\<lambda>c. (title c, court c, year c, url c, citation c, source c)))
     (citations (finalMessage env1 oc))
   = map_option (map (\<lambda>c. (title c, court c, year c, url c, citation c, source c)))
     (citations (finalMessage env2 oc))"
    by (cases "(env1, oc)" rule: finalMessage.cases)
       (simp_all add: assistantMessage_def errorMessage_def mapCitations_shown
          split: option.splits sum.splits)
  have b: "content (finalMessage env1 oc) = content (finalMessage env2 oc)"
    by (cases "(env1, oc)" rule: finalMessage.cases)
       (simp_all add: assistantMessage_def errorMessage_def split: sum.splits)
  have c: "map citation (mapCitations env1 i cs) = map bc_citation cs"
    by (induction cs arbitrary: i) (simp_all add: mapCitation_def)
  have d: "map source (mapCitations env1 i cs) = map bc_source cs"
    by (induction cs arbitrary: i) (simp_all add: mapCitation_def)
  show ?thesis using a b c d by simp
qed

text \<open>
  C8. For an ok reply whose \<open>data\<close> member is there and not null and whose
  \<open>citations\<close> member is readable (absent, null, or an array of objects that each have a
  string \<open>citation\<close> and a string \<open>source\<close>): an absent or empty answer is displayed as
  the fixed sentence about no relevant information, an absent citations field gives the
  empty list, and the citations of the message are never undefined. For every other ok
  reply a read throws, and the message is the apology of the \<open>catch\<close> block, which has no
  citations member. The last conjunct says which \<open>citations\<close> members are not readable.
\<close>

theorem degenerate_response_fallbacks:
  "(member (Some data) (lit ''data'') = Inr dv \<and> member dv (lit ''answer'') = Inr a
      \<and> member dv (lit ''citations'') = Inr cs \<and> read_citations cs = Inr l
    \<longrightarrow> (a = None \<or> a = Some (JString [])
           \<longrightarrow> content (finalMessage env (Replied True (Parsed data))) = JString no_information)
        \<and> (cs = None
           \<longrightarrow> citations (finalMessage env (Replied True (Parsed data))) = Some [])
        \<and> citations (finalMessage env (Replied True (Parsed data))) \<noteq> None)
   \<and> (member (Some data) (lit ''data'') = Inl e1
       \<or> member (Some data) (lit ''data'') = Inr dv \<and> member dv (lit ''answer'') = Inl e2
       \<or> member (Some data) (lit ''data'') = Inr dv \<and> member dv (lit ''citations'') = Inr cs
          \<and> read_citations cs = Inl e3
    \<longrightarrow> finalMessage env (Replied True (Parsed data)) = errorMessage env
        \<and> content (errorMessage env) = JString apology
        \<and> citations (errorMessage env) = None)
   \<and> (read_citations cs = Inl e3 \<longleftrightarrow>
        \<not> (cs = None \<or> cs = Some JNull
           \<or> (\<exists>xs. cs = Some (JArray xs)
                \<and> list_all (\<lambda>x. \<exists>c s. read_string x (lit ''citation'') = Inr (c :: jsstring)
                                    \<and> read_string x (lit ''source'') = Inr (s :: jsstring)) xs)))"
proof (intro conjI impI)
  assume h: "member (Some data) (lit ''data'') = Inr dv \<and> member dv (lit ''answer'') = Inr a
      \<and> member dv (lit ''citations'') = Inr cs \<and> read_citations cs = Inr l"
  then have r: "read_reply data = Inr \<lparr>answer = a, data_citations = l\<rparr>"
    by (simp add: read_reply_def)
  note f = readable_reply [OF r, of env]
  show "citations (finalMessage env (Replied True (Parsed data))) \<noteq> None"
    by (simp only: f) (simp add: assistantMessage_def)
  {
    assume "a = None \<or> a = Some (JString [])"
    then show "content (finalMessage env (Replied True (Parsed data))) = JString no_information"
      by (simp only: f) (auto simp: assistantMessage_def or_value_def)
  }
  {
    assume "cs = None"
    then have "l = None" using h by simp
    then show "citations (finalMessage env (Replied True (Parsed data))) = Some []"
      by (simp only: f) (simp add: assistantMessage_def)
  }
next
  assume "member (Some data) (lit ''data'') = Inl e1
       \<or> member (Some data) (lit ''data'') = Inr dv \<and> member dv (lit ''answer'') = Inl e2
       \<or> member (Some data) (lit ''data'') = Inr dv \<and> member dv (lit ''citations'') = Inr cs
          \<and> read_citations cs = Inl e3"
  then have "\<exists>e. read_reply data = Inl e"
    by (auto simp: read_reply_def split: sum.splits)
  then show "finalMessage env (Replied True (Parsed data)) = errorMessage env"
    by (auto simp: unreadable_reply)
next
  show "content (errorMessage env) = JString apology" by (simp add: errorMessage_def)
next
  show "citations (errorMessage env) = None" by (simp add: errorMessage_def)
next
  have el: "(\<exists>bs. read_elements xs = Inr bs)
      \<longleftrightarrow> list_all (\<lambda>x. \<exists>c s. read_string x (lit ''citation'') = Inr (c :: jsstring)
                                    \<and> read_string x (lit ''source'') = Inr (s :: jsstring)) xs"
    for xs
  proof (induction xs)
    case Nil
    show ?case by simp
  next
    case (Cons x xs)
    show ?case
      using Cons.IH by (auto simp: read_citation_def split: sum.splits)
  qed
  have ok: "(\<exists>l. read_citations cs = Inr l) \<longleftrightarrow>
        (cs = None \<or> cs = Some JNull
           \<or> (\<exists>xs. cs = Some (JArray xs)
                \<and> list_all (\<lambda>x. \<exists>c s. read_string x (lit ''citation'') = Inr (c :: jsstring)
                                    \<and> read_string x (lit ''source'') = Inr (s :: jsstring)) xs))"
    using el by (auto simp: read_citations_Inr_iff)
  have "read_citations cs = Inl e3 \<longleftrightarrow> \<not> (\<exists>l. read_citations cs = Inr l)"
    using error_unique [of _ e3] by (cases "read_citations cs") auto
  then show "read_citations cs = Inl e3 \<longleftrightarrow>
        \<not> (cs = None \<or> cs = Some JNull
           \<or> (\<exists>xs. cs = Some (JArray xs)
                \<and> list_all (\<lambda>x. \<exists>c s. read_string x (lit ''citation'') = Inr (c :: jsstring)
                                    \<and> read_string x (lit ''source'') = Inr (s :: jsstring)) xs))"
    using ok by simp
qed

theorem degenerate_response_fallbacks_witness:
  "member (Some (JObject [(lit ''data'', JObject [])])) (lit ''data'') = Inr (Some (JObject []))
   \<and> member (Some (JObject [])) (lit ''answer'') = Inr None
   \<and> member (Some (JObject [])) (lit ''citations'') = Inr None
   \<and> content (finalMessage \<lparr>now_final = 9, now_at = (+) 9, random_at = toString\<rparr>
        (Replied True (Parsed (JObject [(lit ''data'', JObject [])]))))
     = JString no_information
   \<and> citations (finalMessage \<lparr>now_final = 9, now_at = (+) 9, random_at = toString\<rparr>
        (Replied True (Parsed (JObject [(lit ''data'', JObject [])]))))
     = Some []"
proof -
  let ?env = "\<lparr>now_final = 9, now_at = (+) 9, random_at = toString\<rparr>"
  let ?data = "JObject [(lit ''data'', JObject [])]"
  have h: "member (Some ?data) (lit ''data'') = Inr (Some (JObject []))
      \<and> member (Some (JObject [])) (lit ''answer'') = Inr None
      \<and> member (Some (JObject [])) (lit ''citations'') = Inr None
      \<and> read_citations None = Inr None"
    by simp
  note th = degenerate_response_fallbacks [where data = ?data and dv = "Some (JObject [])"
      and a = None and cs = None and l = None and env = ?env, THEN conjunct1, rule_format, OF h]
  have a: "content (finalMessage ?env (Replied True (Parsed ?data))) = JString no_information"
    using th [THEN conjunct1] by simp
  have b: "citations (finalMessage ?env (Replied True (Parsed ?data))) = Some []"
    using th [THEN conjunct2, THEN conjunct1] by simp
  show ?thesis using h a b by (intro conjI) simp_all
qed

text \<open>
  C8 without the condition on the reply fails: in a reply with no answer whose only
  citation lacks the \<open>citation\<close> string, the callback throws, and the message shown is the
  apology, not the sentence about no relevant information, with no citations member; a
  reply without \<open>data\<close> has no citations field, and its message has no citations member
  either.
\<close>

theorem degenerate_response_counterexample:
  "member (Some (JObject [(lit ''citations'',
       JArray [JObject [(lit ''source'', JString (lit ''High Court, Nairobi''))]])]))
     (lit ''answer'') = Inr None
   \<and> content (finalMessage \<lparr>now_final = 9, now_at = (+) 9, random_at = toString\<rparr>
        (Replied True (Parsed (JObject [(lit ''data'', JObject [(lit ''citations'',
           JArray [JObject [(lit ''source'', JString (lit ''High Court, Nairobi''))]])])]))))
     = JString apology
   \<and> citations (finalMessage \<lparr>now_final = 9, now_at = (+) 9, random_at = toString\<rparr>
        (Replied True (Parsed (JObject [(lit ''data'', JObject [(lit ''citations'',
           JArray [JObject [(lit ''source'', JString (lit ''High Court, Nairobi''))]])])]))))
     = None
   \<and> JString apology \<noteq> JString no_information
   \<and> member (Some (JObject [])) (lit ''data'') = Inr None
   \<and> citations (finalMessage \<lparr>now_final = 9, now_at = (+) 9, random_at = toString\<rparr>
        (Replied True (Parsed (JObject []))))
     = None"
  by (simp add: read_reply_def read_citation_def read_string_def errorMessage_def lit_def
      apology_def no_information_def)

section \<open>Properties of the request\<close>

lemma handleSubmit_begin_issues:
  "snd (handleSubmit_begin now0 now1 st) = Some req \<longleftrightarrow>
   trim (input st) \<noteq> [] \<and> \<not> isLoading st \<and> req = query_request (input st)"
  by (auto simp: handleSubmit_begin_def)

text \<open>
  C3. A request issued by the handler is a POST to the query endpoint whose body has
  exactly two members: the query, which is the input text, and the model identifier,
  which is null.
\<close>

theorem request_carries_query_and_null_model:
  "snd (handleSubmit_begin now0 now1 st) = Some req \<Longrightarrow>
   req_body req = JObject [(lit ''query'', JString (input st)), (lit ''model_id'', JNull)]
   \<and> req_method req = lit ''POST''
   \<and> req_url req = lit ''http://localhost:8000/query''"
  by (simp add: handleSubmit_begin_issues query_request_def)

theorem request_carries_query_and_null_model_witness:
  "snd (handleSubmit_begin 5 6 \<lparr>messages = [], input = lit ''tort'', isLoading = False,
                                 expandedCitations = []\<rparr>)
     = Some (query_request (lit ''tort''))
   \<and> req_body (query_request (lit ''tort''))
     = JObject [(lit ''query'', JString (lit ''tort'')), (lit ''model_id'', JNull)]"
proof -
  let ?st = "\<lparr>messages = [], input = lit ''tort'', isLoading = False, expandedCitations = []\<rparr>"
  have h: "snd (handleSubmit_begin 5 6 ?st) = Some (query_request (lit ''tort''))"
    using trim_tort by (simp add: handleSubmit_begin_def)
  have "req_body (query_request (lit ''tort''))
      = JObject [(lit ''query'', JString (input ?st)), (lit ''model_id'', JNull)]"
    using request_carries_query_and_null_model [OF h] by (rule conjunct1)
  then show ?thesis using h by simp
qed

text \<open>
  C5. A submission issues a request exactly when the input has a code unit that is not
  white space and no request is in flight, which is exactly when the submit button is
  enabled; the query of an issued request is the input text, which is then neither empty
  nor made of white space only.
\<close>

theorem request_only_for_nonblank_input:
  "((\<exists>req. snd (handleSubmit_begin now0 now1 st) = Some req)
      \<longleftrightarrow> (\<exists>u \<in> set (input st). \<not> is_js_whitespace u) \<and> \<not> isLoading st)
   \<and> ((\<exists>req. snd (handleSubmit_begin now0 now1 st) = Some req)
      \<longleftrightarrow> \<not> submit_disabled (input st) (isLoading st))
   \<and> (\<forall>req. snd (handleSubmit_begin now0 now1 st) = Some req \<longrightarrow>
         req_body req = JObject [(lit ''query'', JString (input st)), (lit ''model_id'', JNull)]
         \<and> input st \<noteq> [] \<and> trim (input st) \<noteq> []
         \<and> (\<exists>u \<in> set (input st). \<not> is_js_whitespace u))"
proof -
  have t: "trim (input st) \<noteq> [] \<longleftrightarrow> (\<exists>u \<in> set (input st). \<not> is_js_whitespace u)"
    by (simp add: trim_Nil_iff)
  have ne: "trim (input st) \<noteq> [] \<Longrightarrow> input st \<noteq> []"
    by (auto simp: trim_def)
  show ?thesis
    using t ne by (auto simp: handleSubmit_begin_issues query_request_def submit_disabled_def)
qed

theorem request_only_for_nonblank_input_witness:
  "snd (handleSubmit_begin 5 6 \<lparr>messages = [], input = lit '' tort '', isLoading = False,
                                 expandedCitations = []\<rparr>)
     = Some (query_request (lit '' tort ''))
   \<and> trim (lit '' tort '') = lit ''tort''
   \<and> snd (handleSubmit_begin 5 6 \<lparr>messages = [], input = lit ''   '', isLoading = False,
                                 expandedCitations = []\<rparr>) = None
   \<and> snd (handleSubmit_begin 5 6 \<lparr>messages = [], input = lit ''tort'', isLoading = True,
                                 expandedCitations = []\<rparr>) = None"
proof -
  let ?st = "\<lparr>messages = [], input = lit '' tort '', isLoading = False, expandedCitations = []\<rparr>"
  have ex: "\<exists>u \<in> set (input ?st). \<not> is_js_whitespace u"
    by (simp add: lit_def is_js_whitespace_def)
  have "\<exists>req. snd (handleSubmit_begin 5 6 ?st) = Some req"
    using request_only_for_nonblank_input [of 5 6 ?st] ex by simp
  then have a: "snd (handleSubmit_begin 5 6 ?st) = Some (query_request (lit '' tort ''))"
    by (auto simp: handleSubmit_begin_issues)
  have b: "trim (lit '' tort '') = lit ''tort''"
    by (simp add: trim_def lit_def is_js_whitespace_def)
  have c: "trim (lit ''   '') = []"
    by (simp add: trim_def lit_def is_js_whitespace_def)
  show ?thesis
    using a b c by (simp add: handleSubmit_begin_def)
qed

section \<open>Properties of the message list\<close>

lemma loading_inv_step: "loading_inv st \<Longrightarrow> loading_inv (step st e)"
proof (cases e)
  case (SetInput v)
  assume "loading_inv st"
  then show ?thesis using SetInput by (simp add: loading_inv_def)
next
  case (Toggle i)
  assume "loading_inv st"
  then show ?thesis using Toggle by (simp add: loading_inv_def toggleCitations_def)
next
  case (Submit now0 now1)
  assume "loading_inv st"
  then show ?thesis using Submit
    by (auto simp: loading_inv_def handleSubmit_begin_def is_loading_def
        userMessage_def loadingMessage_def butlast_append)
next
  case (Reply env oc)
  assume "loading_inv st"
  then show ?thesis using Reply
    by (auto simp: loading_inv_def handleSubmit_complete_def finalMessage_not_loading)
qed

lemma loading_inv_run: "loading_inv (run es)"
proof (induction es rule: rev_induct)
  case Nil
  show ?case by (simp add: run_def loading_inv_def initial_state_def)
next
  case (snoc e es)
  then show ?case by (simp add: run_def loading_inv_step)
qed

lemma in_flight_unchanged:
  "isLoading st \<Longrightarrow> list_all (\<lambda>e. \<not> is_reply e) mid \<Longrightarrow>
   messages (foldl step st mid) = messages st \<and> isLoading (foldl step st mid)"
proof (induction mid arbitrary: st)
  case Nil
  then show ?case by simp
next
  case (Cons e mid)
  have "messages (step st e) = messages st \<and> isLoading (step st e)"
    using Cons.prems
    by (cases e) (simp_all add: is_reply_def toggleCitations_def handleSubmit_begin_def)
  then show ?case using Cons.IH [of "step st e"] Cons.prems by simp
qed

lemma reply_lands:
  assumes reach: "st = run es"
    and issued: "handleSubmit_begin now0 now1 st = (st1, Some req)"
    and mid: "list_all (\<lambda>e. \<not> is_reply e) mid"
    and fin: "st2 = foldl step st1 (mid @ [Reply env oc])"
  shows "messages st2 = messages st @ [userMessage now0 (input st), finalMessage env oc]"
    and "\<not> isLoading st2"
    and "list_all (\<lambda>m. \<not> is_loading m) (messages st2)"
proof -
  from issued have guard: "\<not> isLoading st"
    and st1: "st1 = st\<lparr>messages := messages st @ [userMessage now0 (input st), loadingMessage now1],
                        input := [], isLoading := True\<rparr>"
    by (auto simp: handleSubmit_begin_def split: if_splits)
  have clean: "list_all (\<lambda>m. \<not> is_loading m) (messages st)"
    using loading_inv_run [of es] reach guard by (simp add: loading_inv_def)
  have fl: "isLoading st1" using st1 by simp
  define st1' where "st1' = foldl step st1 mid"
  have keep: "messages st1' = messages st1" "isLoading st1'"
    using in_flight_unchanged [OF fl mid] by (simp_all add: st1'_def)
  have st2: "st2 = handleSubmit_complete env oc st1'"
    using fin keep by (simp add: st1'_def)
  show msgs: "messages st2 = messages st @ [userMessage now0 (input st), finalMessage env oc]"
    using st2 keep st1 by (simp add: handleSubmit_complete_def butlast_append)
  show "\<not> isLoading st2"
    using st2 by (simp add: handleSubmit_complete_def)
  have user: "\<not> is_loading (userMessage now0 (input st))"
    by (simp add: is_loading_def userMessage_def)
  show "list_all (\<lambda>m. \<not> is_loading m) (messages st2)"
    using clean user finalMessage_not_loading [of env oc] msgs by simp
qed

text \<open>
  C9. In any state the component can reach, a submission that issues a request, followed
  by any typing, toggling and further submission attempts and then by the reply, whatever
  its outcome, leaves the earlier messages followed by the user's message and one final
  assistant message that is not loading: the list has grown by two, no message in it is
  loading, and the flag is cleared.
\<close>

theorem submission_replaces_placeholder:
  assumes reach: "st = run es"
    and issued: "handleSubmit_begin now0 now1 st = (st1, Some req)"
    and mid: "list_all (\<lambda>e. \<not> is_reply e) mid"
    and fin: "st2 = foldl step st1 (mid @ [Reply env oc])"
  shows "messages st2 = messages st @ [userMessage now0 (input st), finalMessage env oc]
    \<and> role (userMessage now0 (input st)) = User
    \<and> role (finalMessage env oc) = Assistant
    \<and> \<not> is_loading (finalMessage env oc)
    \<and> length (messages st2) = length (messages st) + 2
    \<and> (\<forall>m \<in> set (messages st2). \<not> is_loading m)
    \<and> \<not> isLoading st2"
proof -
  note l = reply_lands [OF reach issued mid fin]
  have all: "\<forall>m \<in> set (messages st2). \<not> is_loading m"
    using l(3) by (simp add: list_all_iff)
  show ?thesis
    using l(1) l(2) all finalMessage_not_loading [of env oc] finalMessage_role [of env oc]
    by (simp add: userMessage_def)
qed

theorem submission_replaces_placeholder_witness:
  "messages (foldl step (fst (handleSubmit_begin 5 6 (run [SetInput (lit ''tort'')])))
              ([Toggle (lit ''7'')] @ [Reply \<lparr>now_final = 9, now_at = (\<lambda>i. 9), random_at = (\<lambda>i. lit ''k3x'')\<rparr> Rejected]))
   = [userMessage 5 (lit ''tort''),
      errorMessage \<lparr>now_final = 9, now_at = (\<lambda>i. 9), random_at = (\<lambda>i. lit ''k3x'')\<rparr>]
   \<and> list_all (\<lambda>e. \<not> is_reply e) [Toggle (lit ''7'')]
   \<and> snd (handleSubmit_begin 5 6 (run [SetInput (lit ''tort'')])) = Some (query_request (lit ''tort''))"
proof -
  let ?st = "run [SetInput (lit ''tort'')]"
  let ?env = "\<lparr>now_final = 9, now_at = (\<lambda>i. 9), random_at = (\<lambda>i. lit ''k3x'')\<rparr>"
  have inp: "input ?st = lit ''tort''" "messages ?st = []" "\<not> isLoading ?st"
    by (simp_all add: run_def initial_state_def)
  have tr: "trim (lit ''tort'') \<noteq> []"
    by (simp add: trim_def lit_def is_js_whitespace_def)
  have issued: "handleSubmit_begin 5 6 ?st
      = (fst (handleSubmit_begin 5 6 ?st), Some (query_request (lit ''tort'')))"
    using inp tr by (simp add: handleSubmit_begin_def)
  have mid: "list_all (\<lambda>e. \<not> is_reply e) [Toggle (lit ''7'')]"
    by (simp add: is_reply_def)
  have c: "snd (handleSubmit_begin 5 6 ?st) = Some (query_request (lit ''tort''))"
    using issued by (metis snd_conv)
  have a: "messages (foldl step (fst (handleSubmit_begin 5 6 ?st))
              ([Toggle (lit ''7'')] @ [Reply ?env Rejected]))
      = messages ?st @ [userMessage 5 (input ?st), finalMessage ?env Rejected]"
    using submission_replaces_placeholder [OF refl issued mid refl, of ?env Rejected]
    by (rule conjunct1)
  have b: "messages (foldl step (fst (handleSubmit_begin 5 6 ?st))
              ([Toggle (lit ''7'')] @ [Reply ?env Rejected]))
      = [userMessage 5 (lit ''tort''), errorMessage ?env]"
    by (simp only: a inp finalMessage.simps append_Nil)
  show ?thesis
    by (intro conjI) (rule b mid c)+
qed

section \<open>Properties of the failure paths\<close>

lemma render_Researching_iff: "render_message ex m = Researching \<longleftrightarrow> is_loading m"
  by (simp add: render_message_def is_loading_def)

lemma no_spinner:
  assumes "list_all (\<lambda>m. \<not> is_loading m) (messages st)"
  shows "Researching \<notin> set (render_page st)"
proof
  assume "Researching \<in> set (render_page st)"
  then obtain m where "m \<in> set (messages st)"
    and "render_message (expandedCitations st) m = Researching"
    by (auto simp: render_page_def)
  then show False
    using assms by (auto simp: list_all_iff render_Researching_iff)
qed

lemma render_page_last:
  "messages st = ms @ [m] \<Longrightarrow> last (render_page st) = render_message (expandedCitations st) m"
  by (simp add: render_page_def)

lemma failure_reply_message:
  "fallback \<noteq> [] \<Longrightarrow>
   finalMessage env (pipeline_failure_reply fallback)
     = \<lparr>id_m = toString (now_final env + 2), role = Assistant, content = JString fallback,
        citations = Some [], loading = None\<rparr>"
  by (simp add: pipeline_failure_reply_def read_reply_def lit_def assistantMessage_def
      or_value_def)

text \<open>
  C1. In any state the component can reach, after a submission that issues a request:
  when the pipeline fails and replies as the spec requires, with a well-formed response
  whose answer is a non-empty fallback message and whose citation list is empty, the
  message list ends with the user's message and one assistant message with that text and
  no citations, the page shows it as a bubble with the text and no citation block, and no
  spinner is left on the page, as for the reply of an empty-result success. A failure
  that does reach the handler at the transport level (a rejected fetch, a status that is
  not ok, a body that does not parse or that the handler cannot read) leaves the
  handler's own apology in the same place, with no citations, shown in the same way.
\<close>

theorem pipeline_failure_shows_apology:
  assumes reach: "st = run es"
    and issued: "handleSubmit_begin now0 now1 st = (st1, Some req)"
    and mid: "list_all (\<lambda>e. \<not> is_reply e) mid"
    and fallback: "fallback \<noteq> []"
    and wellformed: "st2 = foldl step st1 (mid @ [Reply env (pipeline_failure_reply fallback)])"
    and transport: "oc = Rejected \<or> oc = Replied False b \<or> oc = Replied True Unparseable
        \<or> (\<exists>data e. oc = Replied True (Parsed data) \<and> read_reply data = Inl e)"
    and thrown: "st3 = foldl step st1 (mid @ [Reply env oc])"
  shows "messages st2
      = messages st @ [userMessage now0 (input st),
          \<lparr>id_m = toString (now_final env + 2), role = Assistant, content = JString fallback,
           citations = Some [], loading = None\<rparr>]
    \<and> last (render_page st2) = Bubble Assistant (JString fallback) None
    \<and> Researching \<notin> set (render_page st2)
    \<and> messages st3 = messages st @ [userMessage now0 (input st), errorMessage env]
    \<and> content (errorMessage env) = JString apology
    \<and> citations (errorMessage env) = None
    \<and> last (render_page st3) = Bubble Assistant (JString apology) None
    \<and> Researching \<notin> set (render_page st3)
    \<and> render_message (expandedCitations st2)
        (finalMessage env (Replied True (Parsed (JObject [(lit ''data'', JObject [])]))))
      = Bubble Assistant (JString no_information) None"
proof -
  note a = reply_lands [OF reach issued mid wellformed]
  note b = reply_lands [OF reach issued mid thrown]
  have m2: "messages st2
      = messages st @ [userMessage now0 (input st),
          \<lparr>id_m = toString (now_final env + 2), role = Assistant, content = JString fallback,
           citations = Some [], loading = None\<rparr>]"
    using a(1) failure_reply_message [OF fallback, of env] by simp
  have r2: "last (render_page st2) = Bubble Assistant (JString fallback) None"
    using m2 by (simp add: render_page_def render_message_def)
  have e: "finalMessage env oc = errorMessage env"
    using transport by auto
  have m3: "messages st3 = messages st @ [userMessage now0 (input st), errorMessage env]"
    using b(1) e by simp
  have r3: "last (render_page st3) = Bubble Assistant (JString apology) None"
    using m3 by (simp add: render_page_def render_message_def errorMessage_def)
  have empty: "render_message (expandedCitations st2)
        (finalMessage env (Replied True (Parsed (JObject [(lit ''data'', JObject [])]))))
      = Bubble Assistant (JString no_information) None"
    by (simp add: read_reply_def lit_def assistantMessage_def or_value_def render_message_def)
  show ?thesis
    using m2 r2 no_spinner [OF a(3)] m3 r3 no_spinner [OF b(3)] empty
    by (simp add: errorMessage_def)
qed

theorem pipeline_failure_shows_apology_witness:
  "last (render_page (foldl step (fst (handleSubmit_begin 5 6 (run [SetInput (lit ''tort'')])))
           ([Toggle (lit ''7'')]
            @ [Reply \<lparr>now_final = 9, now_at = (+) 9, random_at = toString\<rparr>
                 (pipeline_failure_reply (lit ''Service unavailable.''))])))
     = Bubble Assistant (JString (lit ''Service unavailable.'')) None
   \<and> last (render_page (foldl step (fst (handleSubmit_begin 5 6 (run [SetInput (lit ''tort'')])))
           ([Toggle (lit ''7'')]
            @ [Reply \<lparr>now_final = 9, now_at = (+) 9, random_at = toString\<rparr> Rejected])))
     = Bubble Assistant (JString apology) None
   \<and> lit ''Service unavailable.'' \<noteq> []
   \<and> list_all (\<lambda>e. \<not> is_reply e) [Toggle (lit ''7'')]
   \<and> snd (handleSubmit_begin 5 6 (run [SetInput (lit ''tort'')]))
       = Some (query_request (lit ''tort''))"
proof -
  let ?st = "run [SetInput (lit ''tort'')]"
  let ?env = "\<lparr>now_final = 9, now_at = (+) 9, random_at = toString\<rparr>"
  have inp: "input ?st = lit ''tort''" "\<not> isLoading ?st"
    by (simp_all add: run_def initial_state_def)
  have issued: "handleSubmit_begin 5 6 ?st
      = (fst (handleSubmit_begin 5 6 ?st), Some (query_request (lit ''tort'')))"
    using inp trim_tort by (simp add: handleSubmit_begin_def)
  have mid: "list_all (\<lambda>e. \<not> is_reply e) [Toggle (lit ''7'')]"
    by (simp add: is_reply_def)
  have ne: "lit ''Service unavailable.'' \<noteq> []"
    by (simp add: lit_def)
  have tr: "Rejected = Rejected \<or> Rejected = Replied False Unparseable
      \<or> Rejected = Replied True Unparseable
      \<or> (\<exists>data e. Rejected = Replied True (Parsed data) \<and> read_reply data = Inl e)"
    by simp
  note th = pipeline_failure_shows_apology [OF refl issued mid ne refl tr refl, where env = ?env]
  have c: "snd (handleSubmit_begin 5 6 ?st) = Some (query_request (lit ''tort''))"
    using issued by (metis snd_conv)
  show ?thesis
    by (intro conjI)
       (rule th [THEN conjunct2, THEN conjunct1]
             th [THEN conjunct2, THEN conjunct2, THEN conjunct2, THEN conjunct2, THEN conjunct2,
                 THEN conjunct2, THEN conjunct1]
             ne mid c)+
qed

section \<open>Properties of toggleCitations\<close>

text \<open>
  C10. Toggling an identifier once flips its membership in the expanded list; toggling it
  twice restores its membership and the set of expanded identifiers.
\<close>

theorem toggleCitations_involution:
  "(i \<in> set (expandedCitations (toggleCitations i (toggleCitations i st))))
     = (i \<in> set (expandedCitations st))
   \<and> (i \<in> set (expandedCitations (toggleCitations i st))) = (i \<notin> set (expandedCitations st))
   \<and> set (expandedCitations (toggleCitations i (toggleCitations i st)))
       = set (expandedCitations st)"
  by (auto simp: toggleCitations_def toggle_def)

section \<open>Properties of the configuration\<close>

text \<open>
  C6. The configured providers are groq, together, openai and anthropic with the
  priorities 1, 2, 3 and 4: strictly ascending in list order, so sorting by priority
  leaves the list as it is, and the providers the chain attempts are an initial segment
  of the list, in its order.
\<close>

theorem provider_priorities_ascending:
  "map priority generation_providers = [1, 2, 3, 4]
   \<and> map provider generation_providers = [''groq'', ''together'', ''openai'', ''anthropic'']
   \<and> sorted_wrt (<) (map priority generation_providers)
   \<and> sort_key priority generation_providers = generation_providers
   \<and> prefix (fst (generate attempt generation_providers)) generation_providers"
proof -
  have pre: "prefix (fst (try_providers attempt ps)) ps" for ps :: "provider_spec list"
    by (induction ps) (auto split: sum.splits prod.splits chain_result.splits)
  have s: "sort_key priority generation_providers = generation_providers"
    by (simp add: generation_providers_def)
  have "prefix (fst (generate attempt generation_providers)) generation_providers"
    using pre [of generation_providers] by (simp add: generate_def s)
  then show ?thesis using s by (simp add: generation_providers_def)
qed

end
